theory Spec2Isabelle
  imports Complex_Main "HOL-Library.Word"
begin

section \<open>JavaScript values\<close>

text \<open>
  The field of \<^verbatim>\<open>core/field.js\<close> is handed JavaScript values and compares them with
  \<^verbatim>\<open>===\<close> and \<^verbatim>\<open>==\<close>. A JavaScript string is a sequence of UTF-16 code units,
  and \<^verbatim>\<open>.length\<close> counts code units; the non-breaking space U+00A0, the ellipsis
  U+2026 and the right-to-left mark U+200F are one code unit each.
\<close>

type_synonym jschar = "16 word"
type_synonym jsstring = "jschar list"

text \<open>An ASCII literal of the source, as code units.\<close>

definition str :: "string \<Rightarrow> jsstring" where
  "str s = map of_char s"

text \<open>
  A Number is a double: NaN, an infinity, or a finite value, kept here as the rational
  it is. The zeros \<open>-0\<close> and \<open>+0\<close> are one value; \<^verbatim>\<open>==\<close>, \<^verbatim>\<open>===\<close> and
  \<^verbatim>\<open>String\<close> do not tell them apart. A rational that no double holds is a value of
  the type that no program has.
\<close>

datatype jsnumber = NaN | PosInfinity | NegInfinity | Finite rat

text \<open>
  The primitive values: \<^verbatim>\<open>null\<close>, \<^verbatim>\<open>undefined\<close>, booleans, Numbers and strings.
  Objects, whose conversion to a string or a number runs code of their own, are not
  values of the model.
\<close>

datatype jsval = JNull | JUndefined | JBool bool | JNum jsnumber | JStr jsstring

subsection \<open>White space\<close>

text \<open>
  The characters that \<^verbatim>\<open>/\s/\<close> matches and that the conversion of a string to a
  number strips: WhiteSpace and LineTerminator of ECMAScript. U+180E, which engines
  of older Unicode versions count as a space, is not among them.
\<close>

definition is_whitespace :: "jschar \<Rightarrow> bool" where
  "is_whitespace c \<longleftrightarrow>
     c \<in> {0x0009, 0x000A, 0x000B, 0x000C, 0x000D, 0x0020, 0x00A0, 0x1680,
          0x2028, 0x2029, 0x202F, 0x205F, 0x3000, 0xFEFF}
     \<or> (0x2000 \<le> c \<and> c \<le> 0x200A)"

subsection \<open>The engine\<close>

text \<open>
  Two conversions are the engine's: the string of a Number (\<^verbatim>\<open>Number::toString\<close>) and
  the Number of a string (\<^verbatim>\<open>StringToNumber\<close>). ECMAScript leaves a choice in both: of
  the digits printed, when several strings of the least length denote the Number, and
  of the value rounded, when a literal has more than 20 significant digits. The field
  is modelled over any engine; what is proved of it holds whatever the two
  conversions return.
\<close>

record engine =
  NumberToString :: "jsnumber \<Rightarrow> jsstring"
  StringToNumber :: "jsstring \<Rightarrow> jsnumber"

subsection \<open>String(x)\<close>

fun ToString :: "engine \<Rightarrow> jsval \<Rightarrow> jsstring" where
  "ToString js JNull = str ''null''"
| "ToString js JUndefined = str ''undefined''"
| "ToString js (JBool b) = (if b then str ''true'' else str ''false'')"
| "ToString js (JNum n) = NumberToString js n"
| "ToString js (JStr s) = s"

subsection \<open>The operator ==\<close>

text \<open>Equality of two Numbers: NaN equals nothing, itself included.\<close>

fun num_eq :: "jsnumber \<Rightarrow> jsnumber \<Rightarrow> bool" where
  "num_eq (Finite a) (Finite b) = (a = b)"
| "num_eq PosInfinity PosInfinity = True"
| "num_eq NegInfinity NegInfinity = True"
| "num_eq m n = False"

text \<open>
  Abstract equality of ECMAScript on the primitive values: equal types compare by
  value; \<^verbatim>\<open>null\<close> and \<^verbatim>\<open>undefined\<close> equal each other and nothing else; a boolean is
  compared as the Number 1 or 0; a string is compared with a Number by the Number the
  engine reads from it.
\<close>

fun loose_eq :: "engine \<Rightarrow> jsval \<Rightarrow> jsval \<Rightarrow> bool" where
  "loose_eq js JNull y = (y = JNull \<or> y = JUndefined)"
| "loose_eq js JUndefined y = (y = JNull \<or> y = JUndefined)"
| "loose_eq js (JNum m) (JNum n) = num_eq m n"
| "loose_eq js (JNum m) (JStr s) = num_eq m (StringToNumber js s)"
| "loose_eq js (JNum m) (JBool b) = num_eq m (Finite (if b then 1 else 0))"
| "loose_eq js (JNum m) y = False"
| "loose_eq js (JStr s) (JStr t) = (s = t)"
| "loose_eq js (JStr s) (JNum n) = num_eq (StringToNumber js s) n"
| "loose_eq js (JStr s) (JBool b) = num_eq (StringToNumber js s) (Finite (if b then 1 else 0))"
| "loose_eq js (JStr s) y = False"
| "loose_eq js (JBool a) (JBool b) = (a = b)"
| "loose_eq js (JBool a) (JNum n) = num_eq (Finite (if a then 1 else 0)) n"
| "loose_eq js (JBool a) (JStr s) = num_eq (Finite (if a then 1 else 0)) (StringToNumber js s)"
| "loose_eq js (JBool a) y = False"

subsection \<open>An engine that rounds exactly\<close>

text \<open>
  The engine of the examples makes the choice that the engines in use make: it rounds
  the exact value of every literal, and prints the digits closest to the Number.
  \<open>Number_value\<close> is the double nearest to a rational, ties going to the even
  significand: 53 bits at an exponent of at least \<open>-1074\<close>, and an infinity from
  \<open>2 ^ 1024\<close> on.
\<close>

definition pow2 :: "int \<Rightarrow> rat" where
  "pow2 e = (if 0 \<le> e then 2 ^ nat e else 1 / 2 ^ nat (- e))"

definition pow10 :: "int \<Rightarrow> rat" where
  "pow10 e = (if 0 \<le> e then 10 ^ nat e else 1 / 10 ^ nat (- e))"

fun bits :: "nat \<Rightarrow> nat" where
  "bits n = (if n = 0 then 0 else Suc (bits (n div 2)))"

declare bits.simps [simp del]

fun places :: "nat \<Rightarrow> nat" where
  "places n = (if n < 10 then 1 else Suc (places (n div 10)))"

declare places.simps [simp del]

text \<open>The integer part of the logarithm of a positive rational, to the bases 2 and 10:
  the lengths of numerator and denominator give it up to 1.\<close>

definition floor_log2 :: "rat \<Rightarrow> int" where
  "floor_log2 q =
     (let (a, b) = quotient_of q;
          e = int (bits (nat a)) - int (bits (nat b))
      in if pow2 e \<le> q then e else e - 1)"

definition floor_log10 :: "rat \<Rightarrow> int" where
  "floor_log10 q =
     (let (a, b) = quotient_of q;
          e = int (places (nat a)) - int (places (nat b))
      in if pow10 (e + 1) \<le> q then e + 1 else if pow10 e \<le> q then e else e - 1)"

definition round_half_even :: "rat \<Rightarrow> int" where
  "round_half_even x =
     (let f = \<lfloor>x\<rfloor>; d = x - of_int f
      in if d < 1 / 2 then f else if 1 / 2 < d then f + 1 else if even f then f else f + 1)"

definition Number_value :: "rat \<Rightarrow> jsnumber" where
  "Number_value q =
     (if q = 0 then Finite 0
      else
        let a = \<bar>q\<bar>;
            p = max (floor_log2 a - 52) (- 1074);
            r = of_int (round_half_even (a / pow2 p)) * pow2 p
        in if 2 ^ 1024 \<le> r then (if q < 0 then NegInfinity else PosInfinity)
           else Finite (if q < 0 then - r else r))"

text \<open>
  \<^verbatim>\<open>Number::toString\<close> of a positive Number \<open>q\<close> takes the least \<open>k\<close> for which
  integers \<open>n\<close> and \<open>s\<close> exist with \<open>10 ^ (k - 1) \<le> s < 10 ^ k\<close> and \<open>q\<close> the Number
  value of \<open>s * 10 ^ (n - k)\<close>; 17 digits always do. Of several such \<open>s\<close> the one
  closest to \<open>q\<close> is printed, the even one of two equally close.
\<close>

fun digits :: "nat \<Rightarrow> jsstring" where
  "digits n = (if n < 10 then [of_nat (48 + n)] else digits (n div 10) @ [of_nat (48 + n mod 10)])"

declare digits.simps [simp del]

definition digit_candidates :: "rat \<Rightarrow> nat \<Rightarrow> (int \<times> nat) list" where
  "digit_candidates q k =
     concat (map (\<lambda>n. concat (map (\<lambda>s.
         if 10 ^ (k - 1) \<le> s \<and> s < 10 ^ k \<and> Number_value (of_nat s * pow10 (n - int k)) = Finite q
         then [(n, s)] else [])
       (let lo = nat \<lfloor>q / pow10 (n - int k)\<rfloor> in [lo, lo + 1])))
       (let d = floor_log10 q + 1 in [d, d + 1]))"

definition closer :: "rat \<Rightarrow> nat \<Rightarrow> int \<times> nat \<Rightarrow> int \<times> nat \<Rightarrow> int \<times> nat" where
  "closer q k c1 c2 =
     (let d1 = \<bar>of_nat (snd c1) * pow10 (fst c1 - int k) - q\<bar>;
          d2 = \<bar>of_nat (snd c2) * pow10 (fst c2 - int k) - q\<bar>
      in if d2 < d1 \<or> (d2 = d1 \<and> odd (snd c1) \<and> even (snd c2)) then c2 else c1)"

definition shortest_digits :: "rat \<Rightarrow> (nat \<times> int \<times> nat) option" where
  "shortest_digits q =
     (case List.find (\<lambda>k. digit_candidates q k \<noteq> []) [1..<18] of
        None \<Rightarrow> None
      | Some k \<Rightarrow> (case digit_candidates q k of
                     [] \<Rightarrow> None
                   | c # cs \<Rightarrow> Some (k, foldl (closer q k) c cs)))"

text \<open>The digits \<open>s\<close> with the decimal point after the first \<open>n\<close> of them, in plain
  notation for \<open>-6 < n \<le> 21\<close> and with an exponent otherwise.\<close>

definition format_digits :: "nat \<Rightarrow> int \<Rightarrow> nat \<Rightarrow> jsstring" where
  "format_digits k n s =
     (let ds = digits s in
      if int k \<le> n \<and> n \<le> 21 then ds @ replicate (nat (n - int k)) 0x30
      else if 0 < n \<and> n \<le> 21 then take (nat n) ds @ [0x2E] @ drop (nat n) ds
      else if - 6 < n \<and> n \<le> 0 then [0x30, 0x2E] @ replicate (nat (- n)) 0x30 @ ds
      else
        let ex = [0x65] @ (if 0 \<le> n - 1 then [0x2B] else [0x2D]) @ digits (nat \<bar>n - 1\<bar>)
        in if k = 1 then ds @ ex else take 1 ds @ [0x2E] @ drop 1 ds @ ex)"

text \<open>A rational that no double holds has no digits.\<close>

fun exact_NumberToString :: "jsnumber \<Rightarrow> jsstring" where
  "exact_NumberToString NaN = str ''NaN''"
| "exact_NumberToString PosInfinity = str ''Infinity''"
| "exact_NumberToString NegInfinity = str ''-Infinity''"
| "exact_NumberToString (Finite q) =
     (if q = 0 then str ''0''
      else (if q < 0 then str ''-'' else []) @
           (case shortest_digits \<bar>q\<bar> of
              None \<Rightarrow> []
            | Some (k, n, s) \<Rightarrow> format_digits k n s))"

text \<open>
  The Number of a string, by the StringNumericLiteral grammar: white space is
  stripped; the empty string is 0; \<^verbatim>\<open>0x\<close>, \<^verbatim>\<open>0o\<close> and \<^verbatim>\<open>0b\<close> introduce an unsigned
  integer in that radix; otherwise an optional sign is followed by \<^verbatim>\<open>Infinity\<close> or by a
  decimal literal with optional fraction and exponent; anything else is NaN.
\<close>

definition trim :: "jsstring \<Rightarrow> jsstring" where
  "trim s = rev (dropWhile is_whitespace (rev (dropWhile is_whitespace s)))"

definition digit_of :: "nat \<Rightarrow> jschar \<Rightarrow> nat option" where
  "digit_of r c =
     (let v = (if 0x30 \<le> c \<and> c \<le> 0x39 then Some (unat c - 48)
               else if 0x61 \<le> c \<and> c \<le> 0x66 then Some (unat c - 87)
               else if 0x41 \<le> c \<and> c \<le> 0x46 then Some (unat c - 55)
               else None)
      in case v of None \<Rightarrow> None | Some d \<Rightarrow> if d < r then Some d else None)"

fun digits_val :: "nat \<Rightarrow> nat \<Rightarrow> jsstring \<Rightarrow> nat option" where
  "digits_val r acc [] = Some acc"
| "digits_val r acc (c # cs) =
     (case digit_of r c of None \<Rightarrow> None | Some d \<Rightarrow> digits_val r (acc * r + d) cs)"

definition is_digit :: "jschar \<Rightarrow> bool" where
  "is_digit c \<longleftrightarrow> 0x30 \<le> c \<and> c \<le> 0x39"

definition radix_literal :: "nat \<Rightarrow> jsstring \<Rightarrow> jsnumber" where
  "radix_literal r ds =
     (if ds = [] then NaN
      else case digits_val r 0 ds of None \<Rightarrow> NaN | Some n \<Rightarrow> Number_value (of_nat n))"

definition exponent_part :: "jsstring \<Rightarrow> int option" where
  "exponent_part s =
     (case s of
        [] \<Rightarrow> Some 0
      | c # cs \<Rightarrow>
          if c = 0x65 \<or> c = 0x45 then
            (let (sg, ds) = (case cs of
                               [] \<Rightarrow> (1, [])
                             | d # ds' \<Rightarrow> if d = 0x2D then (- 1, ds')
                                          else if d = 0x2B then (1, ds') else (1, cs))
             in if ds = [] then None
                else case digits_val 10 0 ds of None \<Rightarrow> None | Some n \<Rightarrow> Some (sg * int n))
          else None)"

definition decimal_literal :: "int \<Rightarrow> jsstring \<Rightarrow> jsnumber" where
  "decimal_literal sg body =
     (if body = str ''Infinity'' then (if sg < 0 then NegInfinity else PosInfinity)
      else
        let ip = takeWhile is_digit body;
            r1 = dropWhile is_digit body;
            fp = (case r1 of [] \<Rightarrow> [] | c # cs \<Rightarrow> if c = 0x2E then takeWhile is_digit cs else []);
            r2 = (case r1 of [] \<Rightarrow> [] | c # cs \<Rightarrow> if c = 0x2E then dropWhile is_digit cs else r1)
        in if ip = [] \<and> fp = [] then NaN
           else case (digits_val 10 0 (ip @ fp), exponent_part r2) of
                  (Some m, Some e) \<Rightarrow> Number_value (of_int (sg * int m) * pow10 (e - int (length fp)))
                | _ \<Rightarrow> NaN)"

definition exact_StringToNumber :: "jsstring \<Rightarrow> jsnumber" where
  "exact_StringToNumber s =
     (let t = trim s in
      case t of
        [] \<Rightarrow> Finite 0
      | c # cs \<Rightarrow>
          if c = 0x30 \<and> cs \<noteq> [] \<and> hd cs \<in> {0x78, 0x58} then radix_literal 16 (tl cs)
          else if c = 0x30 \<and> cs \<noteq> [] \<and> hd cs \<in> {0x6F, 0x4F} then radix_literal 8 (tl cs)
          else if c = 0x30 \<and> cs \<noteq> [] \<and> hd cs \<in> {0x62, 0x42} then radix_literal 2 (tl cs)
          else if c = 0x2D then decimal_literal (- 1) cs
          else if c = 0x2B then decimal_literal 1 cs
          else decimal_literal 1 t)"

definition exact_engine :: engine where
  "exact_engine = \<lparr>NumberToString = exact_NumberToString, StringToNumber = exact_StringToNumber\<rparr>"

subsection \<open>Substrings\<close>

text \<open>\<^verbatim>\<open>s.substring(start, end)\<close>: both indices are clamped to the string and swapped if
  they are out of order.\<close>

definition substring :: "jsstring \<Rightarrow> int \<Rightarrow> int \<Rightarrow> jsstring" where
  "substring s start end' =
     (let len = int (length s);
          a = min (max start 0) len;
          b = min (max end' 0) len;
          from = min a b;
          to = max a b
      in take (nat (to - from)) (drop (nat from) s))"

section \<open>The field, its block and the page\<close>

text \<open>A name of the source that ends in an underscore, such as \<^verbatim>\<open>text_\<close> or
  \<^verbatim>\<open>render_\<close>, ends in a prime here: \<open>text'\<close>, \<open>render'\<close>.\<close>

type_synonym node = nat
type_synonym block_ref = nat

text \<open>\<^verbatim>\<open>goog.math.Size\<close>. Pixel widths are real numbers here: the rounding of doubles
  is not modelled.\<close>

record goog_Size =
  width :: real
  height :: real

text \<open>The SVG text element of a field: its text content, its \<^verbatim>\<open>class\<close> attribute
  (which \<^verbatim>\<open>className.baseVal\<close> reads) and its \<^verbatim>\<open>x\<close> attribute.\<close>

record text_element =
  textContent :: jsstring
  class_attr :: jsstring
  x_attr :: real

text \<open>The SVG group of a field, with its \<^verbatim>\<open>style.display\<close>.\<close>

record svg_group =
  node_id :: node
  display :: jsstring

text \<open>The rectangle a subclass may draw around the field.\<close>

record box =
  box_width :: real
  box_height :: real

text \<open>An input of a block holds a row of fields; a block is what the field reads of it.\<close>

record input =
  fieldRow :: "nat list"

record block =
  RTL :: bool
  rendered :: bool
  isShadow :: bool
  inputList :: "input list"
  svgRoot :: node

text \<open>The arguments of \<^verbatim>\<open>new Blockly.Events.Change(block, element, name, oldValue,
  newValue)\<close>.\<close>

record change_event =
  ev_block :: block_ref
  ev_element :: jsstring
  ev_name :: jsval
  ev_oldValue :: jsval
  ev_newValue :: jsval

text \<open>
  The calls the field makes into code outside \<^verbatim>\<open>core/field.js\<close>, in the order it makes
  them: \<^verbatim>\<open>Blockly.Events.fire\<close>, the block's \<^verbatim>\<open>render\<close> and \<^verbatim>\<open>bumpNeighbours_\<close>,
  \<^verbatim>\<open>Blockly.unbindEvent_\<close> and \<^verbatim>\<open>goog.dom.removeNode\<close>.
\<close>

datatype effect =
  Fire change_event
| BlockRender block_ref
| BumpNeighbours block_ref
| UnbindEvent nat
| RemoveNode "svg_group option"

text \<open>
  The properties of a \<^verbatim>\<open>Blockly.Field\<close>. \<open>classValidator\<close> and \<open>positionArrow\<close> are
  the methods a subclass overrides or adds; \<open>validator'\<close> is the user's function or
  \<^verbatim>\<open>null\<close>. \<open>maxDisplayLength\<close> is an integral number.
\<close>

record field =
  name :: jsval
  text' :: jsstring
  sourceBlock' :: "block_ref option"
  visible' :: bool
  validator' :: "(jsval \<Rightarrow> jsval) option"
  classValidator :: "jsval \<Rightarrow> jsval"
  fieldGroup' :: "svg_group option"
  textElement' :: "text_element option"
  size' :: goog_Size
  maxDisplayLength :: int
  EDITABLE :: bool
  positionArrow :: "(real \<Rightarrow> real) option"
  box' :: "box option"
  mouseUpWrapper' :: "nat option"

text \<open>
  The field \<open>this\<close> together with everything else its methods read or write: the
  engine that runs them, the blocks
  (by reference), the two static properties \<^verbatim>\<open>Blockly.Field.cacheWidths_\<close> and
  \<^verbatim>\<open>Blockly.Field.cacheReference_\<close>, the gate \<^verbatim>\<open>Blockly.Events.isEnabled()\<close>, and the
  calls made so far. \<open>getComputedTextLength\<close> is the browser's measurement of a text
  element (\<open>None\<close> when it throws); the three constants of \<^verbatim>\<open>Blockly.BlockSvg\<close> are
  defined outside this file.
\<close>

record world =
  this :: field
  engine :: engine
  blocks :: "block_ref \<Rightarrow> block"
  cacheWidths' :: "(jsstring \<rightharpoonup> real) option"
  cacheReference' :: int
  events_enabled :: bool
  effects :: "effect list"
  getComputedTextLength :: "text_element \<Rightarrow> real option"
  EDITABLE_FIELD_PADDING :: real
  BOX_FIELD_PADDING :: real
  FIELD_WIDTH :: real

text \<open>
  A method either returns or throws; the objects it has mutated keep their new state
  in both cases. \<open>AssertionError\<close> is what a failed \<^verbatim>\<open>goog.asserts.assert\<close> throws
  (assertions enabled, as in an uncompiled build), \<open>TypeError\<close> what reading a property
  of \<^verbatim>\<open>null\<close> throws.
\<close>

datatype error = AssertionError | TypeError

datatype 'a outcome = Return 'a world | Throw error world

fun world_of :: "'a outcome \<Rightarrow> world" where
  "world_of (Return v w) = w"
| "world_of (Throw e w) = w"

fun returns :: "'a outcome \<Rightarrow> bool" where
  "returns (Return v w) = True"
| "returns (Throw e w) = False"

definition NBSP :: jschar where
  "NBSP = 0x00A0"

section \<open>The methods of Blockly.Field\<close>

definition setSourceBlock :: "block_ref \<Rightarrow> world \<Rightarrow> unit outcome" where
  "setSourceBlock block w =
     (if sourceBlock' (this w) \<noteq> None then Throw AssertionError w
      else Return () (w\<lparr>this := (this w)\<lparr>sourceBlock' := Some block\<rparr>\<rparr>))"

definition dispose :: "world \<Rightarrow> unit outcome" where
  "dispose w =
     (let w1 = (case mouseUpWrapper' (this w) of
                  None \<Rightarrow> w
                | Some h \<Rightarrow> w\<lparr>effects := effects w @ [UnbindEvent h],
                              this := (this w)\<lparr>mouseUpWrapper' := None\<rparr>\<rparr>);
          w2 = w1\<lparr>this := (this w1)\<lparr>sourceBlock' := None\<rparr>\<rparr>;
          w3 = w2\<lparr>effects := effects w2 @ [RemoveNode (fieldGroup' (this w2))]\<rparr>
      in Return () (w3\<lparr>this := (this w3)\<lparr>fieldGroup' := None, textElement' := None,
                                          validator' := None\<rparr>\<rparr>))"

definition setValidator :: "(jsval \<Rightarrow> jsval) option \<Rightarrow> world \<Rightarrow> world" where
  "setValidator handler w = w\<lparr>this := (this w)\<lparr>validator' := handler\<rparr>\<rparr>"

definition getValidator :: "world \<Rightarrow> (jsval \<Rightarrow> jsval) option" where
  "getValidator w = validator' (this w)"

text \<open>\<^verbatim>\<open>Blockly.Field.prototype.classValidator\<close>, the class validator of the base class.\<close>

definition Field_classValidator :: "jsval \<Rightarrow> jsval" where
  "Field_classValidator text = text"

text \<open>
  \<open>callValidator\<close> returns the revised text or \<^verbatim>\<open>null\<close>, and with it the arguments of
  the calls it made to the user's validator, in order.
\<close>

definition callValidator :: "jsval \<Rightarrow> world \<Rightarrow> jsval \<times> jsval list" where
  "callValidator text w =
     (let classResult = classValidator (this w) text in
      if classResult = JNull then (JNull, [])
      else
        let text1 = (if classResult \<noteq> JUndefined then classResult else text) in
        case getValidator w of
          None \<Rightarrow> (text1, [])
        | Some userValidator \<Rightarrow>
            let userResult = userValidator text1 in
            if userResult = JNull then (JNull, [text1])
            else if userResult \<noteq> JUndefined then (userResult, [text1])
            else (text1, [text1]))"

definition getSvgRoot :: "world \<Rightarrow> svg_group option" where
  "getSvgRoot w = fieldGroup' (this w)"

text \<open>
  The width of the text of the element, as \<open>render'\<close> finds it once it has missed the
  cache: the browser's measurement, or 8 pixels for each character when that throws.
\<close>

definition measured_width :: "world \<Rightarrow> text_element \<Rightarrow> real" where
  "measured_width w el =
     (case getComputedTextLength w el of
        Some v \<Rightarrow> v
      | None \<Rightarrow> real (length (textContent el)) * 8)"

text \<open>
  \<open>render'\<close>. The only statement of it that can throw is the first read of
  \<^verbatim>\<open>this.sourceBlock_.RTL\<close>; the cache has been written by then, the \<^verbatim>\<open>x\<close>
  attribute and the size have not.
\<close>

definition render' :: "world \<Rightarrow> unit outcome" where
  "render' w =
     (let f = this w in
      case (if visible' f then textElement' f else None) of
        Some el \<Rightarrow>
          (let key = textContent el @ [0x000A] @ class_attr el;
               cached = (case cacheWidths' w of
                           None \<Rightarrow> None
                         | Some c \<Rightarrow> (case c key of
                                        None \<Rightarrow> None
                                      | Some v \<Rightarrow> if v \<noteq> 0 then Some v else None));
               width0 = (case cached of Some v \<Rightarrow> v | None \<Rightarrow> measured_width w el);
               w1 = (case cached of
                       Some v \<Rightarrow> w
                     | None \<Rightarrow> (case cacheWidths' w of
                                  None \<Rightarrow> w
                                | Some c \<Rightarrow> w\<lparr>cacheWidths' := Some (c(key \<mapsto> width0))\<rparr>));
               width1 = (if EDITABLE f then width0 + EDITABLE_FIELD_PADDING w else width0);
               arrowWidth = (case positionArrow f of None \<Rightarrow> 0 | Some pa \<Rightarrow> pa width1);
               width2 = (case positionArrow f of None \<Rightarrow> width1 | Some pa \<Rightarrow> width1 + arrowWidth);
               width3 = (if box' f \<noteq> None then width2 + 2 * BOX_FIELD_PADDING w else width2);
               centerTextX = (width3 - arrowWidth) / 2
           in case sourceBlock' f of
                None \<Rightarrow> Throw TypeError w1
              | Some b \<Rightarrow>
                  (let blk = blocks w b;
                       centerTextX1 = (if RTL blk then centerTextX + arrowWidth else centerTextX);
                       centerTextX2 =
                         (if isShadow blk \<and> positionArrow f = None then
                            (let minOffset = FIELD_WIDTH w / 2 in
                             if RTL blk then min (width3 - minOffset) centerTextX1
                             else max minOffset centerTextX1)
                          else centerTextX1);
                       el1 = el\<lparr>x_attr := centerTextX2\<rparr>;
                       sz = (size' f)\<lparr>width := width3\<rparr>;
                       bx = (case box' f of
                               None \<Rightarrow> None
                             | Some r \<Rightarrow> Some (r\<lparr>box_width := width sz, box_height := height sz\<rparr>))
                   in Return () (w1\<lparr>this := f\<lparr>textElement' := Some el1, size' := sz,
                                                  box' := bx\<rparr>\<rparr>)))
      | None \<Rightarrow>
          (let sz = (size' f)\<lparr>width := 0\<rparr>;
               bx = (case box' f of
                       None \<Rightarrow> None
                     | Some r \<Rightarrow> Some (r\<lparr>box_width := width sz, box_height := height sz\<rparr>))
           in Return () (w\<lparr>this := f\<lparr>size' := sz, box' := bx\<rparr>\<rparr>)))"

definition startCache :: "world \<Rightarrow> world" where
  "startCache w =
     (let w1 = w\<lparr>cacheReference' := cacheReference' w + 1\<rparr> in
      if cacheWidths' w1 = None then w1\<lparr>cacheWidths' := Some Map.empty\<rparr> else w1)"

definition stopCache :: "world \<Rightarrow> world" where
  "stopCache w =
     (let w1 = w\<lparr>cacheReference' := cacheReference' w - 1\<rparr> in
      if cacheReference' w1 = 0 then w1\<lparr>cacheWidths' := None\<rparr> else w1)"

definition getSize :: "world \<Rightarrow> goog_Size outcome" where
  "getSize w =
     (if width (size' (this w)) = 0 then
        (case render' w of
           Throw e w1 \<Rightarrow> Throw e w1
         | Return u w1 \<Rightarrow> Return (size' (this w1)) w1)
      else Return (size' (this w)) w)"

definition getText :: "world \<Rightarrow> jsval" where
  "getText w = JStr (text' (this w))"

text \<open>\<^verbatim>\<open>text.replace(/\s/g, Blockly.Field.NBSP)\<close>.\<close>

definition replace_whitespace :: "jsstring \<Rightarrow> jsstring" where
  "replace_whitespace text = map (\<lambda>c. if is_whitespace c then NBSP else c) text"

definition updateTextNode' :: "world \<Rightarrow> unit outcome" where
  "updateTextNode' w =
     (let f = this w in
      case textElement' f of
        None \<Rightarrow> Return () w
      | Some el \<Rightarrow>
          (let text = text' f;
               truncated = (int (length text) > maxDisplayLength f);
               text1 = (if truncated then substring text 0 (maxDisplayLength f - 2) @ [0x2026]
                        else text);
               el1 = el\<lparr>class_attr := (if truncated then str ''blocklyText blocklyTextTruncated''
                                         else str ''blocklyText'')\<rparr>;
               el2 = el1\<lparr>textContent := []\<rparr>;
               text2 = replace_whitespace text1
           in case sourceBlock' f of
                None \<Rightarrow> Throw TypeError (w\<lparr>this := f\<lparr>textElement' := Some el2\<rparr>\<rparr>)
              | Some b \<Rightarrow>
                  (let text3 = (if RTL (blocks w b) \<and> text2 \<noteq> [] then text2 @ [0x200F] else text2);
                       text4 = (if text3 = [] then [NBSP] else text3);
                       el3 = el2\<lparr>textContent := text4\<rparr>
                   in Return () (w\<lparr>this := f\<lparr>textElement' := Some el3,
                                                 size' := (size' f)\<lparr>width := 0\<rparr>\<rparr>\<rparr>))))"

definition setText :: "jsval \<Rightarrow> world \<Rightarrow> unit outcome" where
  "setText text w =
     (if text = JNull then Return () w
      else
        let text1 = ToString (engine w) text in
        if text1 = text' (this w) then Return () w
        else
          case updateTextNode' (w\<lparr>this := (this w)\<lparr>text' := text1\<rparr>\<rparr>) of
            Throw e w1 \<Rightarrow> Throw e w1
          | Return u w1 \<Rightarrow>
              (case sourceBlock' (this w1) of
                 None \<Rightarrow> Return () w1
               | Some b \<Rightarrow>
                   if rendered (blocks w1 b)
                   then Return () (w1\<lparr>effects := effects w1 @ [BlockRender b, BumpNeighbours b]\<rparr>)
                   else Return () w1))"

definition getValue :: "world \<Rightarrow> jsval" where
  "getValue w = getText w"

definition setValue :: "jsval \<Rightarrow> world \<Rightarrow> unit outcome" where
  "setValue newText w =
     (if newText = JNull then Return () w
      else
        let oldText = getValue w in
        if loose_eq (engine w) oldText newText then Return () w
        else
          let w1 = (case sourceBlock' (this w) of
                      None \<Rightarrow> w
                    | Some b \<Rightarrow>
                        if events_enabled w
                        then w\<lparr>effects := effects w @
                                 [Fire \<lparr>ev_block = b, ev_element = str ''field'',
                                        ev_name = name (this w), ev_oldValue = oldText,
                                        ev_newValue = newText\<rparr>]\<rparr>
                        else w)
          in setText newText w1)"

definition setVisible :: "bool \<Rightarrow> world \<Rightarrow> unit outcome" where
  "setVisible visible w =
     (if visible' (this w) = visible then Return () w
      else
        let w1 = w\<lparr>this := (this w)\<lparr>visible' := visible\<rparr>\<rparr> in
        case getSvgRoot w1 of
          None \<Rightarrow> Return () w1
        | Some root' \<Rightarrow>
            render' (w1\<lparr>this := (this w1)\<lparr>fieldGroup' :=
                       Some (root'\<lparr>display := (if visible then str ''block'' else str ''none'')\<rparr>)\<rparr>\<rparr>))"

text \<open>The loop of \<open>getClickTarget'\<close> over the inputs of the block, from index \<open>i\<close>. The
  inputs are objects, so the loop ends where the array ends.\<close>

function count_fields :: "input list \<Rightarrow> nat \<Rightarrow> nat \<Rightarrow> nat" where
  "count_fields inputs i nFields =
     (if i < length inputs
      then count_fields inputs (i + 1) (nFields + length (fieldRow (inputs ! i)))
      else nFields)"
  by pat_completeness auto
termination
  by (relation "measure (\<lambda>(inputs, i, nFields). length inputs - i)") auto

declare count_fields.simps [simp del]

text \<open>The element returned is named by its node: the root of the block, or the group of
  the field (\<^verbatim>\<open>null\<close> before \<^verbatim>\<open>init\<close>).\<close>

definition getClickTarget' :: "world \<Rightarrow> node option outcome" where
  "getClickTarget' w =
     (case sourceBlock' (this w) of
        None \<Rightarrow> Throw TypeError w
      | Some b \<Rightarrow>
          (let nFields = count_fields (inputList (blocks w b)) 0 0 in
           if nFields \<le> 1 then Return (Some (svgRoot (blocks w b))) w
           else Return (map_option node_id (getSvgRoot w)) w))"

section \<open>Sequences of cache calls\<close>

text \<open>
  A caller of the width cache makes a sequence of \<^verbatim>\<open>startCache()\<close> and
  \<^verbatim>\<open>stopCache()\<close> calls. The calls are nested when no \<^verbatim>\<open>stopCache()\<close> comes without
  a \<^verbatim>\<open>startCache()\<close> still open before it; \<open>open_starts\<close> counts the calls to
  \<^verbatim>\<open>startCache()\<close> that are open at the end.
\<close>

datatype cache_call = Start | Stop

fun run_cache :: "cache_call list \<Rightarrow> world \<Rightarrow> world" where
  "run_cache [] w = w"
| "run_cache (Start # cs) w = run_cache cs (startCache w)"
| "run_cache (Stop # cs) w = run_cache cs (stopCache w)"

fun nested :: "nat \<Rightarrow> cache_call list \<Rightarrow> bool" where
  "nested d [] = True"
| "nested d (Start # cs) = nested (Suc d) cs"
| "nested d (Stop # cs) = (0 < d \<and> nested (d - 1) cs)"

fun open_starts :: "nat \<Rightarrow> cache_call list \<Rightarrow> nat" where
  "open_starts d [] = d"
| "open_starts d (Start # cs) = open_starts (Suc d) cs"
| "open_starts d (Stop # cs) = open_starts (d - 1) cs"

section \<open>What a field shows and how wide it is\<close>

text \<open>The change events among the calls made so far.\<close>

fun fired :: "effect list \<Rightarrow> change_event list" where
  "fired [] = []"
| "fired (Fire e # es) = e # fired es"
| "fired (x # es) = fired es"

text \<open>The number of fields of a block, over all its inputs.\<close>

definition total_fields :: "block \<Rightarrow> nat" where
  "total_fields blk = sum_list (map (\<lambda>inp. length (fieldRow inp)) (inputList blk))"

text \<open>
  A field is initialized once \<^verbatim>\<open>init()\<close> has run on it: \<^verbatim>\<open>init()\<close> builds the group
  and the text element, and reads properties of the block on its way.
\<close>

definition initialized :: "world \<Rightarrow> bool" where
  "initialized w \<longleftrightarrow>
     fieldGroup' (this w) \<noteq> None \<and> textElement' (this w) \<noteq> None \<and> sourceBlock' (this w) \<noteq> None"

text \<open>
  A hidden field has a width only between the constructor, which gives it the
  standard width, and \<^verbatim>\<open>init()\<close>, which ends in \<open>updateTextNode'\<close>. From then on the
  field is settled: it is visible, or its width is 0.
\<close>

definition settled :: "world \<Rightarrow> bool" where
  "settled w \<longleftrightarrow> visible' (this w) \<or> width (size' (this w)) = 0"

text \<open>
  The width of a visible field, in the words of the specification: the width of the
  text (from the cache when it is active and holds a nonzero width for the text and
  its class, measured otherwise), plus the padding of an editable field, the width of
  the drop-down arrow, and the padding of a box on both sides.
\<close>

definition text_width :: "world \<Rightarrow> text_element \<Rightarrow> real" where
  "text_width w el =
     (case cacheWidths' w of
        None \<Rightarrow> measured_width w el
      | Some c \<Rightarrow>
          (case c (textContent el @ [0x000A] @ class_attr el) of
             None \<Rightarrow> measured_width w el
           | Some v \<Rightarrow> if v = 0 then measured_width w el else v))"

definition computed_width :: "world \<Rightarrow> real" where
  "computed_width w =
     (case textElement' (this w) of
        None \<Rightarrow> 0
      | Some el \<Rightarrow>
          (let padded = text_width w el + (if EDITABLE (this w) then EDITABLE_FIELD_PADDING w else 0);
               arrow = (case positionArrow (this w) of None \<Rightarrow> 0 | Some pa \<Rightarrow> pa padded)
           in padded + arrow + (if box' (this w) = None then 0 else 2 * BOX_FIELD_PADDING w)))"

section \<open>Example states\<close>

text \<open>
  A block with one input of one field, and a field of it as \<^verbatim>\<open>init()\<close> leaves it:
  bound to block 1, named \<^verbatim>\<open>NUM\<close>, showing \<^verbatim>\<open>abc\<close>, at most 8 characters wide. The
  browser of the example measures 10 pixels for each character.
\<close>

definition demo_block :: block where
  "demo_block = \<lparr>RTL = False, rendered = True, isShadow = False,
                  inputList = [\<lparr>fieldRow = [0]\<rparr>], svgRoot = 100\<rparr>"

definition demo_field :: field where
  "demo_field =
     \<lparr>name = JStr (str ''NUM''), text' = str ''abc'', sourceBlock' = Some 1, visible' = True,
      validator' = None, classValidator = Field_classValidator,
      fieldGroup' = Some \<lparr>node_id = 7, display = []\<rparr>,
      textElement' = Some \<lparr>textContent = str ''abc'', class_attr = str ''blocklyText'', x_attr = 0\<rparr>,
      size' = \<lparr>width = 0, height = 32\<rparr>, maxDisplayLength = 8, EDITABLE = True,
      positionArrow = None, box' = None, mouseUpWrapper' = Some 3\<rparr>"

definition demo_world :: world where
  "demo_world =
     \<lparr>this = demo_field, engine = exact_engine, blocks = (\<lambda>b. demo_block), cacheWidths' = None, cacheReference' = 0,
      events_enabled = True, effects = [],
      getComputedTextLength = (\<lambda>el. Some (real (length (textContent el)) * 10)),
      EDITABLE_FIELD_PADDING = 6, BOX_FIELD_PADDING = 4, FIELD_WIDTH = 48\<rparr>"

text \<open>The same field before it is bound and initialized.\<close>

definition demo_unbound :: world where
  "demo_unbound =
     demo_world\<lparr>this := demo_field\<lparr>sourceBlock' := None, fieldGroup' := None,
                                    textElement' := None, mouseUpWrapper' := None\<rparr>\<rparr>"

text \<open>The field with other texts, on a right-to-left block, and on a block of two
  fields.\<close>

definition demo_zero :: world where
  "demo_zero = demo_world\<lparr>this := demo_field\<lparr>text' := str ''0''\<rparr>\<rparr>"

definition demo_hello :: world where
  "demo_hello = demo_world\<lparr>this := demo_field\<lparr>text' := str ''hello world''\<rparr>\<rparr>"

definition demo_empty :: world where
  "demo_empty = demo_world\<lparr>this := demo_field\<lparr>text' := []\<rparr>\<rparr>"

definition demo_rtl :: world where
  "demo_rtl = demo_world\<lparr>blocks := (\<lambda>b. demo_block\<lparr>RTL := True\<rparr>)\<rparr>"

definition demo_two_fields :: world where
  "demo_two_fields =
     demo_world\<lparr>blocks := (\<lambda>b. demo_block\<lparr>inputList := [\<lparr>fieldRow = [0]\<rparr>, \<lparr>fieldRow = [1]\<rparr>]\<rparr>)\<rparr>"

text \<open>The field hidden; and a hidden label (a field that is not editable) on a page
  where the browser measures 0 for every text.\<close>

definition demo_hidden :: world where
  "demo_hidden =
     demo_world\<lparr>this := demo_field\<lparr>visible' := False,
                                    fieldGroup' := Some \<lparr>node_id = 7, display = str ''none''\<rparr>\<rparr>\<rparr>"

definition demo_label :: world where
  "demo_label =
     demo_world\<lparr>this := demo_field\<lparr>visible' := False, EDITABLE := False,
                                    fieldGroup' := Some \<lparr>node_id = 7, display = str ''none''\<rparr>\<rparr>,
                  getComputedTextLength := (\<lambda>el. Some 0)\<rparr>"

text \<open>The field with a class validator that rejects every text, and with one that
  replaces every text by \<^verbatim>\<open>12\<close>; the user's validator returns a text of its own in
  the first and \<^verbatim>\<open>undefined\<close> in the second.\<close>

definition demo_rejecting :: world where
  "demo_rejecting =
     demo_world\<lparr>this := demo_field\<lparr>classValidator := (\<lambda>t. JNull),
                                    validator' := Some (\<lambda>t. JStr (str ''spy''))\<rparr>\<rparr>"

definition demo_replacing :: world where
  "demo_replacing =
     demo_world\<lparr>this := demo_field\<lparr>classValidator := (\<lambda>t. JStr (str ''12'')),
                                    validator' := Some (\<lambda>t. JUndefined)\<rparr>\<rparr>"

lemmas demo_defs = demo_world_def demo_field_def demo_block_def demo_unbound_def demo_zero_def
  demo_hello_def demo_empty_def demo_rtl_def demo_two_fields_def demo_hidden_def demo_label_def
  demo_rejecting_def demo_replacing_def

lemmas js_defs = str_def is_whitespace_def

section \<open>The engine of the examples\<close>

text \<open>What the exact engine reads from the strings of the examples, and how it prints 5:
  one digit does, and of the one-digit strings only \<^verbatim>\<open>5\<close> denotes it.\<close>

lemma exact_reads:
  "StringToNumber exact_engine (str ''abc'') = NaN"
  "StringToNumber exact_engine (str ''true'') = NaN"
  "StringToNumber exact_engine (str ''0'') = Finite 0"
  by (simp_all add: str_def is_whitespace_def exact_engine_def exact_StringToNumber_def trim_def
      decimal_literal_def is_digit_def digit_of_def exponent_part_def Number_value_def)

lemma bits_small: "bits (Suc 0) = 1" "bits 5 = 3" "bits 6 = 3" "bits 10 = 4"
  by (simp_all add: bits.simps)

lemma places_small: "places (Suc 0) = 1" "places 5 = 1"
  by (simp_all add: places.simps)

lemma floor_log2_small: "floor_log2 5 = 2" "floor_log2 6 = 2" "floor_log2 10 = 3"
  by (simp_all add: floor_log2_def pow2_def bits_small Let_def)

lemma floor_log10_5: "floor_log10 5 = 0"
  by (simp add: floor_log10_def pow10_def places_small Let_def)

lemma Number_value_small:
  "Number_value 5 = Finite 5" "Number_value 6 = Finite 6" "Number_value 10 = Finite 10"
  by (simp_all add: Number_value_def floor_log2_small pow2_def round_half_even_def Let_def)

lemma floor_half: "\<lfloor>1 / 2 :: rat\<rfloor> = 0"
  by (simp add: floor_eq_iff)

lemma digit_candidates_5: "digit_candidates 5 (Suc 0) = [(1, 5)]"
  by (simp add: digit_candidates_def floor_log10_5 pow10_def Number_value_small floor_half Let_def)

lemma find_first: "P a \<Longrightarrow> List.find P (a # xs) = Some a"
  by simp

lemma upt_18: "[1..<18] = 1 # [2..<18]"
  by (simp add: upt_conv_Cons)

lemma find_5: "List.find (\<lambda>k. digit_candidates 5 k \<noteq> []) [1..<18] = Some 1"
  unfolding upt_18 by (rule find_first) (simp add: digit_candidates_5)

lemma shortest_digits_5: "shortest_digits 5 = Some (1, 1, 5)"
  unfolding shortest_digits_def find_5 by (simp add: digit_candidates_5)

lemma exact_prints: "NumberToString exact_engine (Finite 5) = str ''5''"
  by (simp add: exact_engine_def shortest_digits_5 format_digits_def digits.simps str_def)

lemmas exact_raw = exact_reads [unfolded str_def, simplified] exact_prints [unfolded str_def, simplified]

section \<open>Binding a field to its block\<close>

text \<open>
  Claim C6. On a field that is bound to a block, \<open>setSourceBlock\<close> with any second
  block throws the assertion's error and leaves the field as it was, still bound to
  the first block. On a field that is not bound it returns, and the field is bound to
  the block given.
\<close>

theorem setSourceBlock_binds_once:
  "(sourceBlock' (this w) = Some b1 \<longrightarrow>
      setSourceBlock b2 w = Throw AssertionError w \<and>
      sourceBlock' (this (world_of (setSourceBlock b2 w))) = Some b1) \<and>
   (sourceBlock' (this u) = None \<longrightarrow>
      returns (setSourceBlock b u) \<and>
      sourceBlock' (this (world_of (setSourceBlock b u))) = Some b)"
  by (simp add: setSourceBlock_def)

theorem setSourceBlock_binds_once_witness:
  "sourceBlock' (this demo_world) = Some 1 \<and>
   setSourceBlock 2 demo_world = Throw AssertionError demo_world \<and>
   sourceBlock' (this (world_of (setSourceBlock 2 demo_world))) = Some 1 \<and>
   sourceBlock' (this demo_unbound) = None \<and>
   returns (setSourceBlock 5 demo_unbound) \<and>
   sourceBlock' (this (world_of (setSourceBlock 5 demo_unbound))) = Some 5"
proof -
  have bound: "sourceBlock' (this demo_world) = Some 1"
    by (simp add: demo_world_def demo_field_def)
  have unbound: "sourceBlock' (this demo_unbound) = None"
    by (simp add: demo_unbound_def)
  from setSourceBlock_binds_once [of demo_world 1 2 demo_unbound 5] bound unbound
  show ?thesis by simp
qed

text \<open>
  Claim C10. \<open>dispose\<close> returns and leaves the field bound to no block, whatever it
  was bound to; \<open>setSourceBlock\<close> on the disposed field then returns, for any block,
  and binds the field to it.
\<close>

theorem dispose_allows_rebinding:
  "returns (dispose w) \<and>
   sourceBlock' (this (world_of (dispose w))) = None \<and>
   returns (setSourceBlock b (world_of (dispose w))) \<and>
   sourceBlock' (this (world_of (setSourceBlock b (world_of (dispose w))))) = Some b"
  by (simp add: dispose_def setSourceBlock_def Let_def split: option.split)

theorem dispose_allows_rebinding_witness:
  "setSourceBlock 2 demo_world = Throw AssertionError demo_world \<and>
   returns (setSourceBlock 2 (world_of (dispose demo_world))) \<and>
   sourceBlock' (this (world_of (setSourceBlock 2 (world_of (dispose demo_world))))) = Some 2"
proof -
  have "setSourceBlock 2 demo_world = Throw AssertionError demo_world"
    by (simp add: setSourceBlock_def demo_world_def demo_field_def)
  with dispose_allows_rebinding [of demo_world 2] show ?thesis by simp
qed

section \<open>The validators\<close>

text \<open>
  Claim C2. \<open>callValidator\<close> applies the class validator first. If that returns
  \<^verbatim>\<open>null\<close>, the call returns \<^verbatim>\<open>null\<close> and has not called the user's validator.
  Otherwise the text goes on as \<open>t1\<close>: the class validator's result, or the text
  given when the result is \<^verbatim>\<open>undefined\<close>. With no user's validator the call returns
  \<open>t1\<close>. With one, it calls it once, with \<open>t1\<close>, and returns \<^verbatim>\<open>null\<close> if the result
  is \<^verbatim>\<open>null\<close>, \<open>t1\<close> if it is \<^verbatim>\<open>undefined\<close>, and the result otherwise.
\<close>

theorem callValidator_chain:
  "(classValidator (this w) t = JNull \<longrightarrow> callValidator t w = (JNull, [])) \<and>
   (classValidator (this w) t \<noteq> JNull \<and>
    t1 = (if classValidator (this w) t = JUndefined then t else classValidator (this w) t) \<longrightarrow>
      (validator' (this w) = None \<longrightarrow> callValidator t w = (t1, [])) \<and>
      (validator' (this w) = Some v \<longrightarrow>
         snd (callValidator t w) = [t1] \<and>
         fst (callValidator t w) =
           (if v t1 = JNull then JNull else if v t1 = JUndefined then t1 else v t1)))"
  by (simp add: callValidator_def getValidator_def Let_def)

theorem callValidator_chain_witness:
  "callValidator (JStr (str ''x'')) demo_rejecting = (JNull, []) \<and>
   callValidator (JStr (str ''x'')) demo_replacing = (JStr (str ''12''), [JStr (str ''12'')]) \<and>
   callValidator (JStr (str ''x'')) demo_world = (JStr (str ''x''), [])"
proof -
  have rejects: "classValidator (this demo_rejecting) (JStr (str ''x'')) = JNull"
    by (simp add: demo_defs)
  have replaces: "classValidator (this demo_replacing) (JStr (str ''x'')) = JStr (str ''12'')"
    and user: "validator' (this demo_replacing) = Some (\<lambda>t. JUndefined)"
    by (simp_all add: demo_defs)
  have keeps: "classValidator (this demo_world) (JStr (str ''x'')) = JStr (str ''x'')"
    and no_user: "validator' (this demo_world) = None"
    by (simp_all add: demo_defs Field_classValidator_def)
  from callValidator_chain [of demo_rejecting "JStr (str ''x'')"] rejects
  have "callValidator (JStr (str ''x'')) demo_rejecting = (JNull, [])"
    by simp
  moreover
  from callValidator_chain [of demo_replacing "JStr (str ''x'')" "JStr (str ''12'')" "\<lambda>t. JUndefined"]
    replaces user
  have "callValidator (JStr (str ''x'')) demo_replacing = (JStr (str ''12''), [JStr (str ''12'')])"
    by (simp add: prod_eq_iff)
  moreover
  from callValidator_chain [of demo_world "JStr (str ''x'')" "JStr (str ''x'')"] keeps no_user
  have "callValidator (JStr (str ''x'')) demo_world = (JStr (str ''x''), [])"
    by simp
  ultimately show ?thesis by simp
qed

section \<open>Setting the value\<close>

lemma updateTextNode_keeps:
  "text' (this (world_of (updateTextNode' w))) = text' (this w) \<and>
   effects (world_of (updateTextNode' w)) = effects w"
  by (simp add: updateTextNode'_def Let_def split: option.split)

lemma fired_append: "fired (xs @ ys) = fired xs @ fired ys"
  by (induction xs rule: fired.induct) simp_all

lemma setText_text:
  assumes "x \<noteq> JNull"
  shows "text' (this (world_of (setText x w))) = ToString (engine w) x"
proof -
  let ?w0 = "w\<lparr>this := (this w)\<lparr>text' := ToString (engine w) x\<rparr>\<rparr>"
  have kept: "text' (this (world_of (updateTextNode' ?w0))) = ToString (engine w) x"
    using updateTextNode_keeps [of ?w0] by simp
  show ?thesis
  proof (cases "updateTextNode' ?w0")
    case (Return u w1)
    with kept assms show ?thesis
      by (simp add: setText_def Let_def split: option.split)
  next
    case (Throw e w1)
    with kept assms show ?thesis
      by (simp add: setText_def Let_def)
  qed
qed

lemma setText_effects:
  "\<exists>rest. effects (world_of (setText x w)) = effects w @ rest \<and> fired rest = []"
proof -
  let ?w0 = "w\<lparr>this := (this w)\<lparr>text' := ToString (engine w) x\<rparr>\<rparr>"
  have kept: "effects (world_of (updateTextNode' ?w0)) = effects w"
    using updateTextNode_keeps [of ?w0] by simp
  show ?thesis
  proof (cases "updateTextNode' ?w0")
    case (Return u w1)
    with kept show ?thesis
      by (simp add: setText_def Let_def split: option.split)
  next
    case (Throw e w1)
    with kept show ?thesis
      by (simp add: setText_def Let_def)
  qed
qed

text \<open>
  Claim C5. \<open>setValue\<close> and \<open>setText\<close> with \<^verbatim>\<open>null\<close> return and change nothing: the
  text, the value, the events fired and the calls made to the block are as before.
\<close>

theorem setters_ignore_null:
  "setValue JNull w = Return () w \<and> setText JNull w = Return () w"
  by (simp add: setValue_def setText_def)

theorem setters_ignore_null_witness:
  "setValue JNull demo_world = Return () demo_world \<and>
   setText JNull demo_world = Return () demo_world \<and>
   getValue (world_of (setValue JNull demo_world)) = JStr (str ''abc'')"
  using setters_ignore_null [of demo_world]
  by (simp add: getValue_def getText_def demo_defs)

text \<open>
  Claim C1, as the code has it. For a value \<open>x\<close> other than \<^verbatim>\<open>null\<close> that is not
  loosely equal to the current value, \<open>getValue\<close> after \<open>setValue x\<close> returns
  \<^verbatim>\<open>String(x)\<close>, which is \<open>x\<close> itself when \<open>x\<close> is a string. For a value loosely
  equal to the current value, \<open>setValue\<close> returns and changes nothing: no event, the
  same text, no call to the block. Loose equality and \<^verbatim>\<open>String\<close> are those of the
  engine that runs the field, whichever it is.
\<close>

theorem setValue_then_getValue:
  "(x \<noteq> JNull \<and> \<not> loose_eq (engine w) (getValue w) x \<longrightarrow>
      getValue (world_of (setValue x w)) = JStr (ToString (engine w) x)) \<and>
   (x = JStr s \<and> \<not> loose_eq (engine w) (getValue w) x \<longrightarrow>
      getValue (world_of (setValue x w)) = x) \<and>
   (loose_eq (engine w) (getValue w) x \<longrightarrow> setValue x w = Return () w)"
  by (simp add: setValue_def Let_def getValue_def getText_def setText_text split: option.split)

theorem setValue_then_getValue_witness:
  "\<not> loose_eq (engine demo_world) (getValue demo_world) (JNum (Finite 5)) \<and>
   getValue (world_of (setValue (JNum (Finite 5)) demo_world)) = JStr (str ''5'') \<and>
   \<not> loose_eq (engine demo_world) (getValue demo_world) (JStr (str ''xyz'')) \<and>
   getValue (world_of (setValue (JStr (str ''xyz'')) demo_world)) = JStr (str ''xyz'') \<and>
   loose_eq (engine demo_zero) (getValue demo_zero) (JNum (Finite 0)) \<and>
   setValue (JNum (Finite 0)) demo_zero = Return () demo_zero"
proof -
  have differs: "\<not> loose_eq (engine demo_world) (getValue demo_world) (JNum (Finite 5))"
    and differs_str: "\<not> loose_eq (engine demo_world) (getValue demo_world) (JStr (str ''xyz''))"
    and equal: "loose_eq (engine demo_zero) (getValue demo_zero) (JNum (Finite 0))"
    by (simp_all add: demo_defs getValue_def getText_def js_defs exact_raw)
  have five: "ToString exact_engine (JNum (Finite 5)) = str ''5''"
    by (simp add: exact_prints)
  have runs: "engine demo_world = exact_engine" "engine demo_unbound = exact_engine"
      "engine demo_zero = exact_engine"
    by (simp_all add: demo_defs)
  from setValue_then_getValue [of "JNum (Finite 5)" demo_world] differs five runs
  have "getValue (world_of (setValue (JNum (Finite 5)) demo_world)) = JStr (str ''5'')"
    by simp
  moreover
  from setValue_then_getValue [of "JStr (str ''xyz'')" demo_world "str ''xyz''"] differs_str
  have "getValue (world_of (setValue (JStr (str ''xyz'')) demo_world)) = JStr (str ''xyz'')"
    by simp
  moreover
  from setValue_then_getValue [of "JNum (Finite 0)" demo_zero] equal
  have "setValue (JNum (Finite 0)) demo_zero = Return () demo_zero"
    by simp
  ultimately show ?thesis using differs differs_str equal by simp
qed

text \<open>
  Claim C1 as stated fails where \<open>x\<close> is not a string. The field shows \<^verbatim>\<open>abc\<close>. The
  number 5 is not \<^verbatim>\<open>null\<close> and not loosely equal to \<^verbatim>\<open>abc\<close>, and after
  \<^verbatim>\<open>setValue(5)\<close> the value is the string \<^verbatim>\<open>5\<close>, not the number. The same holds for
  \<^verbatim>\<open>true\<close>, and the string \<^verbatim>\<open>true\<close> that \<open>getValue\<close> returns is not even loosely
  equal to \<^verbatim>\<open>true\<close>.
\<close>

theorem setValue_then_getValue_counterexample:
  "JNum (Finite 5) \<noteq> JNull \<and>
   \<not> loose_eq (engine demo_world) (getValue demo_world) (JNum (Finite 5)) \<and>
   getValue (world_of (setValue (JNum (Finite 5)) demo_world)) = JStr (str ''5'') \<and>
   getValue (world_of (setValue (JNum (Finite 5)) demo_world)) \<noteq> JNum (Finite 5) \<and>
   JBool True \<noteq> JNull \<and>
   \<not> loose_eq (engine demo_world) (getValue demo_world) (JBool True) \<and>
   getValue (world_of (setValue (JBool True) demo_world)) = JStr (str ''true'') \<and>
   \<not> loose_eq (engine demo_world) (getValue (world_of (setValue (JBool True) demo_world)))
        (JBool True)"
  by (simp add: demo_defs setValue_def setText_def updateTextNode'_def getValue_def getText_def
      js_defs exact_raw Let_def)

text \<open>
  Claim C4. Let \<open>x\<close> be other than \<^verbatim>\<open>null\<close> and not loosely equal to the current
  value. If the field is bound to a block \<open>b\<close> and events are enabled, \<open>setValue x\<close>
  fires exactly one event, with the block, \<^verbatim>\<open>field\<close>, the name of the field, the old
  value and \<open>x\<close>; the event is the first call \<open>setValue\<close> makes, and everything else
  \<open>setValue\<close> does is \<open>setText x\<close> in the state in which the event has been fired and
  the value is still the old one. If the field is not bound or events are disabled,
  no event is fired. In both cases the text is \<^verbatim>\<open>String(x)\<close> afterwards. This holds
  for every engine.
\<close>

theorem setValue_fires_before_update:
  assumes "x \<noteq> JNull" and "\<not> loose_eq (engine w) (getValue w) x"
  shows "(sourceBlock' (this w) = Some b \<and> events_enabled w \<longrightarrow>
           (let ev = \<lparr>ev_block = b, ev_element = str ''field'', ev_name = name (this w),
                      ev_oldValue = getValue w, ev_newValue = x\<rparr>;
                w1 = w\<lparr>effects := effects w @ [Fire ev]\<rparr>
            in fired (effects (world_of (setValue x w))) = fired (effects w) @ [ev] \<and>
               (\<exists>rest. effects (world_of (setValue x w)) = effects w @ Fire ev # rest) \<and>
               setValue x w = setText x w1 \<and>
               getValue w1 = getValue w \<and>
               getValue (world_of (setValue x w)) = JStr (ToString (engine w) x))) \<and>
         (sourceBlock' (this w) = None \<or> \<not> events_enabled w \<longrightarrow>
            fired (effects (world_of (setValue x w))) = fired (effects w) \<and>
            getValue (world_of (setValue x w)) = JStr (ToString (engine w) x))"
proof (intro conjI impI)
  assume bound: "sourceBlock' (this w) = Some b \<and> events_enabled w"
  define ev where "ev = \<lparr>ev_block = b, ev_element = str ''field'', ev_name = name (this w),
                         ev_oldValue = getValue w, ev_newValue = x\<rparr>"
  define w1 where "w1 = w\<lparr>effects := effects w @ [Fire ev]\<rparr>"
  have sv: "setValue x w = setText x w1"
    using assms bound by (simp add: setValue_def Let_def w1_def ev_def)
  obtain rest where rest: "effects (world_of (setText x w1)) = effects w1 @ rest" "fired rest = []"
    using setText_effects [of x w1] by blast
  have "fired (effects (world_of (setValue x w))) = fired (effects w) @ [ev]"
    using sv rest by (simp add: w1_def fired_append)
  moreover have "\<exists>rest. effects (world_of (setValue x w)) = effects w @ Fire ev # rest"
    using sv rest by (simp add: w1_def)
  moreover have "getValue w1 = getValue w"
    by (simp add: w1_def getValue_def getText_def)
  moreover have "getValue (world_of (setValue x w)) = JStr (ToString (engine w) x)"
    using sv assms(1) by (simp add: getValue_def getText_def setText_text w1_def)
  ultimately
  show "let ev = \<lparr>ev_block = b, ev_element = str ''field'', ev_name = name (this w),
                   ev_oldValue = getValue w, ev_newValue = x\<rparr>;
            w1 = w\<lparr>effects := effects w @ [Fire ev]\<rparr>
        in fired (effects (world_of (setValue x w))) = fired (effects w) @ [ev] \<and>
           (\<exists>rest. effects (world_of (setValue x w)) = effects w @ Fire ev # rest) \<and>
           setValue x w = setText x w1 \<and>
           getValue w1 = getValue w \<and>
           getValue (world_of (setValue x w)) = JStr (ToString (engine w) x)"
    using sv by (simp add: Let_def ev_def w1_def)
next
  assume quiet: "sourceBlock' (this w) = None \<or> \<not> events_enabled w"
  have sv: "setValue x w = setText x w"
    using assms quiet by (auto simp: setValue_def Let_def split: option.split)
  obtain rest where rest: "effects (world_of (setText x w)) = effects w @ rest" "fired rest = []"
    using setText_effects [of x w] by blast
  show "fired (effects (world_of (setValue x w))) = fired (effects w)"
    using sv rest by (simp add: fired_append)
next
  assume quiet: "sourceBlock' (this w) = None \<or> \<not> events_enabled w"
  have sv: "setValue x w = setText x w"
    using assms quiet by (auto simp: setValue_def Let_def split: option.split)
  show "getValue (world_of (setValue x w)) = JStr (ToString (engine w) x)"
    using sv assms(1) by (simp add: getValue_def getText_def setText_text)
qed

theorem setValue_fires_before_update_witness:
  "effects (world_of (setValue (JNum (Finite 5)) demo_world)) =
     [Fire \<lparr>ev_block = 1, ev_element = str ''field'', ev_name = JStr (str ''NUM''),
            ev_oldValue = JStr (str ''abc''), ev_newValue = JNum (Finite 5)\<rparr>,
      BlockRender 1, BumpNeighbours 1] \<and>
   fired (effects (world_of (setValue (JNum (Finite 5)) demo_world))) =
     [\<lparr>ev_block = 1, ev_element = str ''field'', ev_name = JStr (str ''NUM''),
       ev_oldValue = JStr (str ''abc''), ev_newValue = JNum (Finite 5)\<rparr>] \<and>
   getValue (world_of (setValue (JNum (Finite 5)) demo_world)) = JStr (str ''5'') \<and>
   fired (effects (world_of (setValue (JNum (Finite 5)) (demo_world\<lparr>events_enabled := False\<rparr>)))) = [] \<and>
   getValue (world_of (setValue (JNum (Finite 5)) (demo_world\<lparr>events_enabled := False\<rparr>))) = JStr (str ''5'') \<and>
   fired (effects (world_of (setValue (JNum (Finite 5)) demo_unbound))) = [] \<and>
   getValue (world_of (setValue (JNum (Finite 5)) demo_unbound)) = JStr (str ''5'')"
proof -
  have not_null: "JNum (Finite 5) \<noteq> JNull"
    by simp
  have differs: "\<not> loose_eq (engine demo_world) (getValue demo_world) (JNum (Finite 5))"
    and differs_off: "\<not> loose_eq (engine (demo_world\<lparr>events_enabled := False\<rparr>))
        (getValue (demo_world\<lparr>events_enabled := False\<rparr>)) (JNum (Finite 5))"
    and differs_unbound: "\<not> loose_eq (engine demo_unbound) (getValue demo_unbound) (JNum (Finite 5))"
    by (simp_all add: demo_defs getValue_def getText_def js_defs exact_raw)
  have bound: "sourceBlock' (this demo_world) = Some 1 \<and> events_enabled demo_world"
    and off: "\<not> events_enabled (demo_world\<lparr>events_enabled := False\<rparr>)"
    and unbound: "sourceBlock' (this demo_unbound) = None"
    by (simp_all add: demo_defs)
  have five: "ToString exact_engine (JNum (Finite 5)) = str ''5''"
    by (simp add: exact_prints)
  have runs: "engine demo_world = exact_engine" "engine demo_unbound = exact_engine"
      "engine (demo_world\<lparr>events_enabled := False\<rparr>) = exact_engine"
    by (simp_all add: demo_defs)
  have calls: "effects (world_of (setValue (JNum (Finite 5)) demo_world)) =
     [Fire \<lparr>ev_block = 1, ev_element = str ''field'', ev_name = JStr (str ''NUM''),
            ev_oldValue = JStr (str ''abc''), ev_newValue = JNum (Finite 5)\<rparr>,
      BlockRender 1, BumpNeighbours 1]"
    by (simp add: demo_defs setValue_def setText_def updateTextNode'_def getValue_def
        getText_def js_defs exact_raw Let_def)
  have before: "name (this demo_world) = JStr (str ''NUM'')" "getValue demo_world = JStr (str ''abc'')"
      "effects demo_world = []" "effects demo_unbound = []"
    by (simp_all add: demo_defs getValue_def getText_def)
  note fires = setValue_fires_before_update [OF not_null differs, of 1, THEN conjunct1, THEN mp,
      OF bound, unfolded Let_def]
  from fires [THEN conjunct1] fires [THEN conjunct2, THEN conjunct2, THEN conjunct2, THEN conjunct2]
    five runs before
  have "fired (effects (world_of (setValue (JNum (Finite 5)) demo_world))) =
          [\<lparr>ev_block = 1, ev_element = str ''field'', ev_name = JStr (str ''NUM''),
            ev_oldValue = JStr (str ''abc''), ev_newValue = JNum (Finite 5)\<rparr>] \<and>
        getValue (world_of (setValue (JNum (Finite 5)) demo_world)) = JStr (str ''5'')"
    by simp
  moreover
  from setValue_fires_before_update [OF not_null differs_off] off five runs before
  have "fired (effects (world_of (setValue (JNum (Finite 5)) (demo_world\<lparr>events_enabled := False\<rparr>)))) = [] \<and>
        getValue (world_of (setValue (JNum (Finite 5)) (demo_world\<lparr>events_enabled := False\<rparr>))) = JStr (str ''5'')"
    by simp
  moreover
  from setValue_fires_before_update [OF not_null differs_unbound] unbound five runs before
  have "fired (effects (world_of (setValue (JNum (Finite 5)) demo_unbound))) = [] \<and>
        getValue (world_of (setValue (JNum (Finite 5)) demo_unbound)) = JStr (str ''5'')"
    by simp
  ultimately show ?thesis using calls by simp
qed

section \<open>The text shown\<close>

lemma substring_prefix: "substring s 0 n = take (nat n) s"
  by (simp add: substring_def Let_def min_def max_def)

lemma replace_whitespace_ellipsis:
  "replace_whitespace (s @ [0x2026]) = replace_whitespace s @ [0x2026]"
  by (simp add: replace_whitespace_def is_whitespace_def)

lemma replace_whitespace_Nil: "replace_whitespace s = [] \<longleftrightarrow> s = []"
  by (simp add: replace_whitespace_def)

text \<open>
  Claim C3, as the code has it. On a rendered field of a block, \<open>updateTextNode'\<close>
  returns and leaves the stored text as it is. If the text \<open>t\<close> is not longer than
  \<open>maxDisplayLength\<close>, the text shown is \<open>t\<close> with every white space character
  replaced by a non-breaking space, or a single non-breaking space when \<open>t\<close> is
  empty, and the class is \<^verbatim>\<open>blocklyText\<close>. If \<open>t\<close> is longer, the text shown is the
  first \<open>maxDisplayLength - 2\<close> characters of \<open>t\<close> (none when that is negative), with
  white space replaced in the same way, and the ellipsis, and the class is that of
  truncated text. On a right-to-left block a right-to-left mark follows the text
  shown, but for the non-breaking space of the empty text.
\<close>

theorem updateTextNode_display:
  assumes "textElement' (this w) = Some el" and "sourceBlock' (this w) = Some b"
  shows "\<exists>el'. returns (updateTextNode' w) \<and>
           textElement' (this (world_of (updateTextNode' w))) = Some el' \<and>
           text' (this (world_of (updateTextNode' w))) = text' (this w) \<and>
           (let t = text' (this w); m = maxDisplayLength (this w); rtl = RTL (blocks w b) in
            (int (length t) \<le> m \<and> t \<noteq> [] \<longrightarrow>
               textContent el' = replace_whitespace t @ (if rtl then [0x200F] else []) \<and>
               class_attr el' = str ''blocklyText'') \<and>
            (int (length t) \<le> m \<and> t = [] \<longrightarrow>
               textContent el' = [NBSP] \<and> class_attr el' = str ''blocklyText'') \<and>
            (int (length t) > m \<longrightarrow>
               textContent el' = replace_whitespace (take (nat (m - 2)) t) @ [0x2026]
                                   @ (if rtl then [0x200F] else []) \<and>
               class_attr el' = str ''blocklyText blocklyTextTruncated''))"
  using assms
  by (simp add: updateTextNode'_def Let_def substring_prefix replace_whitespace_ellipsis
      replace_whitespace_Nil)

theorem updateTextNode_display_witness:
  "map_option textContent (textElement' (this (world_of (updateTextNode' demo_hello)))) =
     Some (str ''hello'' @ [0x00A0, 0x2026]) \<and>
   map_option class_attr (textElement' (this (world_of (updateTextNode' demo_hello)))) =
     Some (str ''blocklyText blocklyTextTruncated'') \<and>
   getText (world_of (updateTextNode' demo_hello)) = JStr (str ''hello world'') \<and>
   map_option textContent (textElement' (this (world_of (updateTextNode' demo_world)))) =
     Some (str ''abc'') \<and>
   map_option class_attr (textElement' (this (world_of (updateTextNode' demo_world)))) =
     Some (str ''blocklyText'') \<and>
   map_option textContent (textElement' (this (world_of (updateTextNode' demo_empty)))) =
     Some [NBSP] \<and>
   map_option textContent (textElement' (this (world_of (updateTextNode' demo_rtl)))) =
     Some (str ''abc'' @ [0x200F])"
proof -
  have rendered_empty: "textElement' (this demo_empty) =
      Some \<lparr>textContent = str ''abc'', class_attr = str ''blocklyText'', x_attr = 0\<rparr>"
    and bound_empty: "sourceBlock' (this demo_empty) = Some 1"
    and rendered_rtl: "textElement' (this demo_rtl) =
      Some \<lparr>textContent = str ''abc'', class_attr = str ''blocklyText'', x_attr = 0\<rparr>"
    and bound_rtl: "sourceBlock' (this demo_rtl) = Some 1"
    by (simp_all add: demo_defs)
  have empty: "text' (this demo_empty) = []" "maxDisplayLength (this demo_empty) = 8"
    and rtl: "text' (this demo_rtl) = str ''abc''" "maxDisplayLength (this demo_rtl) = 8"
      "RTL (blocks demo_rtl 1) = True"
    by (simp_all add: demo_defs)
  have rendered_hello: "textElement' (this demo_hello) =
      Some \<lparr>textContent = str ''abc'', class_attr = str ''blocklyText'', x_attr = 0\<rparr>"
    and bound_hello: "sourceBlock' (this demo_hello) = Some 1"
    and rendered_abc: "textElement' (this demo_world) =
      Some \<lparr>textContent = str ''abc'', class_attr = str ''blocklyText'', x_attr = 0\<rparr>"
    and bound_abc: "sourceBlock' (this demo_world) = Some 1"
    by (simp_all add: demo_defs)
  have hello: "text' (this demo_hello) = str ''hello world''" "maxDisplayLength (this demo_hello) = 8"
      "RTL (blocks demo_hello 1) = False"
    and abc: "text' (this demo_world) = str ''abc''" "maxDisplayLength (this demo_world) = 8"
      "RTL (blocks demo_world 1) = False"
    by (simp_all add: demo_defs)
  have shown: "replace_whitespace (take 6 (str ''hello world'')) = str ''hello'' @ [0x00A0]"
      "replace_whitespace (str ''abc'') = str ''abc''"
    by (simp_all add: replace_whitespace_def NBSP_def js_defs)
  from updateTextNode_display [OF rendered_hello bound_hello] hello shown
  have "map_option textContent (textElement' (this (world_of (updateTextNode' demo_hello)))) =
          Some (str ''hello'' @ [0x00A0, 0x2026]) \<and>
        map_option class_attr (textElement' (this (world_of (updateTextNode' demo_hello)))) =
          Some (str ''blocklyText blocklyTextTruncated'') \<and>
        getText (world_of (updateTextNode' demo_hello)) = JStr (str ''hello world'')"
    by (auto simp: Let_def getText_def str_def)
  moreover
  from updateTextNode_display [OF rendered_abc bound_abc] abc shown
  have "map_option textContent (textElement' (this (world_of (updateTextNode' demo_world)))) =
          Some (str ''abc'') \<and>
        map_option class_attr (textElement' (this (world_of (updateTextNode' demo_world)))) =
          Some (str ''blocklyText'')"
    by (auto simp: Let_def str_def)
  moreover
  from updateTextNode_display [OF rendered_empty bound_empty] empty
  have "map_option textContent (textElement' (this (world_of (updateTextNode' demo_empty)))) =
          Some [NBSP]"
    by (auto simp: Let_def)
  moreover
  from updateTextNode_display [OF rendered_rtl bound_rtl] rtl shown
  have "map_option textContent (textElement' (this (world_of (updateTextNode' demo_rtl)))) =
          Some (str ''abc'' @ [0x200F])"
    by (auto simp: Let_def str_def)
  ultimately show ?thesis by simp
qed

text \<open>
  Claim C3 as stated fails in three places. The text \<^verbatim>\<open>hello world\<close> with at most 8
  characters is shown with a non-breaking space before the ellipsis, which is not its
  first 6 characters and the ellipsis. The empty text is shown as a non-breaking
  space, which is not the empty text with its white space replaced. On a
  right-to-left block \<^verbatim>\<open>abc\<close> is shown with a right-to-left mark after it.
\<close>

theorem updateTextNode_display_counterexample:
  "map_option textContent (textElement' (this (world_of (updateTextNode' demo_hello)))) =
     Some (str ''hello'' @ [0x00A0, 0x2026]) \<and>
   str ''hello'' @ [0x00A0, 0x2026] \<noteq> take 6 (str ''hello world'') @ [0x2026] \<and>
   map_option textContent (textElement' (this (world_of (updateTextNode' demo_empty)))) =
     Some [0x00A0] \<and>
   [0x00A0] \<noteq> replace_whitespace (text' (this demo_empty)) \<and>
   map_option textContent (textElement' (this (world_of (updateTextNode' demo_rtl)))) =
     Some (str ''abc'' @ [0x200F]) \<and>
   str ''abc'' @ [0x200F] \<noteq> replace_whitespace (text' (this demo_rtl))"
  by (simp add: demo_defs updateTextNode'_def Let_def substring_def replace_whitespace_def
      NBSP_def js_defs)

section \<open>The click target\<close>

lemma count_fields_sum:
  "count_fields inputs i n = n + sum_list (map (\<lambda>inp. length (fieldRow inp)) (drop i inputs))"
proof (induction inputs i n rule: count_fields.induct)
  case (1 inputs i nFields)
  show ?case
  proof (cases "i < length inputs")
    case True
    then have "drop i inputs = inputs ! i # drop (Suc i) inputs"
      by (simp add: Cons_nth_drop_Suc)
    with True "1" show ?thesis
      by (simp add: count_fields.simps [of inputs i nFields])
  next
    case False
    then show ?thesis
      by (simp add: count_fields.simps [of inputs i nFields])
  qed
qed

text \<open>
  Claim C9. On a field bound to a block, \<open>getClickTarget'\<close> returns the root of the
  block when the block has at most one field over all its inputs, and the group of
  the field when it has two or more. It counts the fields of the block as the block is
  at the call, and changes nothing.
\<close>

theorem getClickTarget_by_field_count:
  "sourceBlock' (this w) = Some b \<Longrightarrow>
   getClickTarget' w =
     Return (if total_fields (blocks w b) \<le> 1 then Some (svgRoot (blocks w b))
             else map_option node_id (fieldGroup' (this w))) w"
  by (simp add: getClickTarget'_def count_fields_sum total_fields_def getSvgRoot_def)

theorem getClickTarget_by_field_count_witness:
  "getClickTarget' demo_world = Return (Some 100) demo_world \<and>
   getClickTarget' demo_two_fields = Return (Some 7) demo_two_fields"
proof -
  have one: "sourceBlock' (this demo_world) = Some 1" "total_fields (blocks demo_world 1) = 1"
      "svgRoot (blocks demo_world 1) = 100"
    and two: "sourceBlock' (this demo_two_fields) = Some 1"
      "total_fields (blocks demo_two_fields 1) = 2"
      "fieldGroup' (this demo_two_fields) = Some \<lparr>node_id = 7, display = []\<rparr>"
    by (simp_all add: demo_defs total_fields_def)
  from getClickTarget_by_field_count [of demo_world 1] one
  have "getClickTarget' demo_world = Return (Some 100) demo_world"
    by simp
  moreover
  from getClickTarget_by_field_count [of demo_two_fields 1] two
  have "getClickTarget' demo_two_fields = Return (Some 7) demo_two_fields"
    by simp
  ultimately show ?thesis by simp
qed

section \<open>The width cache\<close>

lemma cache_invariant:
  "cacheReference' w = int d \<Longrightarrow> (cacheWidths' w \<noteq> None \<longleftrightarrow> 0 < d) \<Longrightarrow> nested d cs \<Longrightarrow>
   cacheReference' (run_cache cs w) = int (open_starts d cs) \<and>
   (cacheWidths' (run_cache cs w) \<noteq> None \<longleftrightarrow> 0 < open_starts d cs)"
proof (induction cs arbitrary: w d)
  case Nil
  then show ?case by simp
next
  case (Cons c cs)
  show ?case
  proof (cases c)
    case Start
    have "cacheReference' (startCache w) = int (Suc d)"
      using Cons.prems(1) by (simp add: startCache_def Let_def)
    moreover have "cacheWidths' (startCache w) \<noteq> None \<longleftrightarrow> 0 < Suc d"
      by (simp add: startCache_def Let_def)
    moreover have "nested (Suc d) cs"
      using Cons.prems(3) Start by simp
    ultimately show ?thesis
      using Cons.IH [of "startCache w" "Suc d"] Start by simp
  next
    case Stop
    from Cons.prems(3) Stop have pos: "0 < d" and rest: "nested (d - 1) cs"
      by simp_all
    have "cacheReference' (stopCache w) = int (d - 1)"
      using Cons.prems(1) pos by (simp add: stopCache_def Let_def of_nat_diff)
    moreover have "cacheWidths' (stopCache w) \<noteq> None \<longleftrightarrow> 0 < d - 1"
      using Cons.prems(1,2) pos by (auto simp: stopCache_def Let_def)
    ultimately show ?thesis
      using Cons.IH [of "stopCache w" "d - 1"] rest Stop by simp
  qed
qed

text \<open>
  Claim C7. From a reference count of 0 and no cache, \<^verbatim>\<open>startCache(); startCache();
  stopCache()\<close> leaves the cache there, and one more \<^verbatim>\<open>stopCache()\<close> removes it. After
  any nested sequence of calls the reference count is the number of calls to
  \<^verbatim>\<open>startCache()\<close> still open, and the cache is there exactly when the count is
  greater than 0.
\<close>

theorem width_cache_is_reference_counted:
  "cacheReference' w = 0 \<Longrightarrow> cacheWidths' w = None \<Longrightarrow>
   cacheWidths' (stopCache (startCache (startCache w))) \<noteq> None \<and>
   cacheWidths' (stopCache (stopCache (startCache (startCache w)))) = None \<and>
   (nested 0 cs \<longrightarrow>
      cacheReference' (run_cache cs w) = int (open_starts 0 cs) \<and>
      (cacheWidths' (run_cache cs w) \<noteq> None \<longleftrightarrow> 0 < cacheReference' (run_cache cs w)))"
  using cache_invariant [of w 0 cs]
  by (simp add: startCache_def stopCache_def Let_def)

theorem width_cache_is_reference_counted_witness:
  "cacheWidths' (stopCache (startCache (startCache demo_world))) \<noteq> None \<and>
   cacheWidths' (stopCache (stopCache (startCache (startCache demo_world)))) = None \<and>
   nested 0 [Start, Start, Stop, Start] \<and>
   cacheReference' (run_cache [Start, Start, Stop, Start] demo_world) = 2 \<and>
   cacheWidths' (run_cache [Start, Start, Stop, Start] demo_world) \<noteq> None \<and>
   nested 0 [Start, Start, Stop, Stop] \<and>
   cacheReference' (run_cache [Start, Start, Stop, Stop] demo_world) = 0 \<and>
   cacheWidths' (run_cache [Start, Start, Stop, Stop] demo_world) = None"
proof -
  have fresh: "cacheReference' demo_world = 0" "cacheWidths' demo_world = None"
    by (simp_all add: demo_defs)
  have open_calls: "nested 0 [Start, Start, Stop, Start]" "open_starts 0 [Start, Start, Stop, Start] = 2"
    and closed_calls: "nested 0 [Start, Start, Stop, Stop]" "open_starts 0 [Start, Start, Stop, Stop] = 0"
    by simp_all
  from width_cache_is_reference_counted [OF fresh, of "[Start, Start, Stop, Start]"] open_calls
  have "cacheWidths' (stopCache (startCache (startCache demo_world))) \<noteq> None \<and>
        cacheWidths' (stopCache (stopCache (startCache (startCache demo_world)))) = None \<and>
        cacheReference' (run_cache [Start, Start, Stop, Start] demo_world) = 2 \<and>
        cacheWidths' (run_cache [Start, Start, Stop, Start] demo_world) \<noteq> None"
    by simp
  moreover
  from width_cache_is_reference_counted [OF fresh, of "[Start, Start, Stop, Stop]"] closed_calls
  have "cacheReference' (run_cache [Start, Start, Stop, Stop] demo_world) = 0 \<and>
        cacheWidths' (run_cache [Start, Start, Stop, Stop] demo_world) = None"
    by simp
  ultimately show ?thesis using open_calls closed_calls by simp
qed

section \<open>The width of a hidden field\<close>

lemma measured_width_this [simp]: "measured_width (w\<lparr>this := f\<rparr>) el = measured_width w el"
  by (simp add: measured_width_def)

lemma text_width_this [simp]: "text_width (w\<lparr>this := f\<rparr>) el = text_width w el"
  by (simp add: text_width_def split: option.split)

lemma render_hidden:
  "\<not> visible' (this w) \<or> textElement' (this w) = None \<Longrightarrow>
   returns (render' w) \<and> width (size' (this (world_of (render' w)))) = 0 \<and>
   visible' (this (world_of (render' w))) = visible' (this w)"
  by (auto simp: render'_def Let_def)

lemma render_visible:
  "visible' (this w) \<Longrightarrow> textElement' (this w) = Some el \<Longrightarrow> sourceBlock' (this w) = Some b \<Longrightarrow>
   returns (render' w) \<and> width (size' (this (world_of (render' w)))) = computed_width w"
  by (simp add: render'_def Let_def computed_width_def text_width_def split: option.split)

lemma render_keeps_visible: "visible' (this (world_of (render' w))) = visible' (this w)"
  by (simp add: render'_def Let_def split: option.split)

lemma getSize_hidden:
  assumes "\<not> visible' (this w)" and "width (size' (this w)) = 0"
  shows "\<exists>sz w2. getSize w = Return sz w2 \<and> width sz = 0"
proof -
  from assms(1) render_hidden [of w] obtain u w2
    where "render' w = Return u w2" and "width (size' (this w2)) = 0"
    by (cases "render' w") auto
  with assms(2) show ?thesis by (simp add: getSize_def)
qed

subsection \<open>Every method keeps a field settled\<close>

text \<open>
  \<^verbatim>\<open>init()\<close> ends in \<open>updateTextNode'\<close> on a field that has its text element, which
  leaves the width at 0; and the methods that write the width or the visibility keep
  a settled field settled, \<open>setVisible\<close> on a field that has its group.
\<close>

lemma updateTextNode_clears_width:
  "textElement' (this w) \<noteq> None \<Longrightarrow> sourceBlock' (this w) \<noteq> None \<Longrightarrow>
   returns (updateTextNode' w) \<and> width (size' (this (world_of (updateTextNode' w)))) = 0"
  by (auto simp: updateTextNode'_def Let_def)

lemma settled_render: "settled (world_of (render' w))"
proof (cases "visible' (this w)")
  case True
  then show ?thesis by (simp add: settled_def render_keeps_visible)
next
  case False
  then show ?thesis using render_hidden [of w] by (simp add: settled_def)
qed

lemma settled_updateTextNode: "settled w \<Longrightarrow> settled (world_of (updateTextNode' w))"
  by (auto simp: settled_def updateTextNode'_def Let_def split: option.split)

lemma settled_effects [simp]: "settled (w\<lparr>effects := es\<rparr>) = settled w"
  by (simp add: settled_def)

lemma settled_setText:
  assumes "settled w"
  shows "settled (world_of (setText x w))"
proof -
  let ?w0 = "w\<lparr>this := (this w)\<lparr>text' := ToString (engine w) x\<rparr>\<rparr>"
  from assms have "settled ?w0" by (simp add: settled_def)
  then have kept: "settled (world_of (updateTextNode' ?w0))" by (rule settled_updateTextNode)
  show ?thesis
  proof (cases "updateTextNode' ?w0")
    case (Return u w1)
    with kept assms show ?thesis
      by (simp add: setText_def Let_def split: option.split)
  next
    case (Throw e w1)
    with kept assms show ?thesis
      by (simp add: setText_def Let_def)
  qed
qed

lemma settled_setValue: "settled w \<Longrightarrow> settled (world_of (setValue x w))"
  by (simp add: setValue_def Let_def settled_setText split: option.split)

lemma settled_getSize:
  assumes "settled w"
  shows "settled (world_of (getSize w))"
proof (cases "render' w")
  case (Return u w1)
  with settled_render [of w] assms show ?thesis by (simp add: getSize_def)
next
  case (Throw e w1)
  with settled_render [of w] assms show ?thesis by (simp add: getSize_def)
qed

lemma settled_setVisible:
  "settled w \<Longrightarrow> fieldGroup' (this w) \<noteq> None \<Longrightarrow> settled (world_of (setVisible v w))"
  by (auto simp: setVisible_def Let_def getSvgRoot_def settled_render)

subsection \<open>Hiding and showing\<close>

text \<open>
  Claim C8, as the code has it. On an initialized field that is settled,
  \<open>setVisible False\<close> returns and the next \<open>getSize\<close> returns a width of 0. On a hidden
  initialized field, \<open>setVisible True\<close> returns with the width already computed and
  stored: \<open>setVisible\<close> calls \<open>render'\<close> itself, and the next \<open>getSize\<close> returns that
  width and changes nothing when the width is not 0. \<open>render'\<close> returns with a width of
  0 whenever the field is hidden or has no text element.
\<close>

theorem setVisible_width:
  assumes "initialized w"
  shows "(settled w \<longrightarrow>
            returns (setVisible False w) \<and>
            (\<exists>sz w2. getSize (world_of (setVisible False w)) = Return sz w2 \<and> width sz = 0)) \<and>
         (\<not> visible' (this w) \<longrightarrow>
            returns (setVisible True w) \<and>
            width (size' (this (world_of (setVisible True w)))) = computed_width w \<and>
            (computed_width w \<noteq> 0 \<longrightarrow>
               getSize (world_of (setVisible True w)) =
                 Return (size' (this (world_of (setVisible True w)))) (world_of (setVisible True w)))) \<and>
         (\<not> visible' (this u) \<or> textElement' (this u) = None \<longrightarrow>
            returns (render' u) \<and> width (size' (this (world_of (render' u)))) = 0)"
proof (intro conjI impI)
  assume ok: "settled w"
  from assms obtain g where g: "fieldGroup' (this w) = Some g"
    by (auto simp: initialized_def)
  let ?w1 = "w\<lparr>this := (this w)\<lparr>visible' := False,
                                 fieldGroup' := Some (g\<lparr>display := str ''none''\<rparr>)\<rparr>\<rparr>"
  have hide: "visible' (this w) \<Longrightarrow> setVisible False w = render' ?w1"
    using g by (simp add: setVisible_def Let_def getSvgRoot_def)
  have hidden: "returns (render' ?w1) \<and> \<not> visible' (this (world_of (render' ?w1))) \<and>
                width (size' (this (world_of (render' ?w1)))) = 0"
    using render_hidden [of ?w1] by simp
  show "returns (setVisible False w)"
    using hide hidden by (cases "visible' (this w)") (simp_all add: setVisible_def)
  show "\<exists>sz w2. getSize (world_of (setVisible False w)) = Return sz w2 \<and> width sz = 0"
  proof (cases "visible' (this w)")
    case True
    with hide hidden show ?thesis
      using getSize_hidden [of "world_of (render' ?w1)"] by simp
  next
    case False
    with ok have "width (size' (this w)) = 0" by (simp add: settled_def)
    with False show ?thesis
      using getSize_hidden [of w] by (simp add: setVisible_def)
  qed
next
  assume hidden: "\<not> visible' (this w)"
  from assms obtain g el b where g: "fieldGroup' (this w) = Some g"
    and el: "textElement' (this w) = Some el" and b: "sourceBlock' (this w) = Some b"
    by (auto simp: initialized_def)
  let ?w1 = "w\<lparr>this := (this w)\<lparr>visible' := True,
                                 fieldGroup' := Some (g\<lparr>display := str ''block''\<rparr>)\<rparr>\<rparr>"
  have shown: "setVisible True w = render' ?w1"
    using hidden g by (simp add: setVisible_def Let_def getSvgRoot_def)
  have same: "computed_width ?w1 = computed_width w"
    using el by (simp add: computed_width_def)
  have drawn: "returns (render' ?w1) \<and>
               width (size' (this (world_of (render' ?w1)))) = computed_width w"
    using render_visible [of ?w1 el b] el b same by simp
  show "returns (setVisible True w)"
    using shown drawn by simp
  show "width (size' (this (world_of (setVisible True w)))) = computed_width w"
    using shown drawn by simp
  show "getSize (world_of (setVisible True w)) =
          Return (size' (this (world_of (setVisible True w)))) (world_of (setVisible True w))"
    if "computed_width w \<noteq> 0"
    using shown drawn that by (simp add: getSize_def)
next
  assume "\<not> visible' (this u) \<or> textElement' (this u) = None"
  then show "returns (render' u)" and "width (size' (this (world_of (render' u)))) = 0"
    using render_hidden [of u] by simp_all
qed

theorem setVisible_width_witness:
  "initialized demo_world \<and> settled demo_world \<and>
   returns (setVisible False demo_world) \<and>
   getSize (world_of (setVisible False demo_world)) =
     Return \<lparr>width = 0, height = 32\<rparr> (world_of (setVisible False demo_world)) \<and>
   initialized demo_hidden \<and> \<not> visible' (this demo_hidden) \<and>
   computed_width demo_hidden = 36 \<and>
   width (size' (this (world_of (setVisible True demo_hidden)))) = 36 \<and>
   getSize (world_of (setVisible True demo_hidden)) =
     Return \<lparr>width = 36, height = 32\<rparr> (world_of (setVisible True demo_hidden)) \<and>
   width (size' (this (world_of (render' demo_hidden)))) = 0"
proof -
  have visible: "initialized demo_world" "settled demo_world"
    and hidden: "initialized demo_hidden" "\<not> visible' (this demo_hidden)"
    by (simp_all add: demo_defs initialized_def settled_def)
  have wide: "computed_width demo_hidden = 36"
    by (simp add: demo_defs computed_width_def text_width_def measured_width_def js_defs)
  have hide: "getSize (world_of (setVisible False demo_world)) =
      Return \<lparr>width = 0, height = 32\<rparr> (world_of (setVisible False demo_world))"
    by (simp add: demo_defs setVisible_def getSvgRoot_def render'_def getSize_def Let_def)
  have tall: "height (size' (this (world_of (setVisible True demo_hidden)))) = 32"
    by (simp add: demo_defs setVisible_def getSvgRoot_def render'_def Let_def)
  note hiding = setVisible_width [OF visible(1), of demo_hidden, THEN conjunct1, THEN mp, OF visible(2)]
  note showing = setVisible_width [OF hidden(1), of demo_hidden, THEN conjunct2, THEN conjunct1,
      THEN mp, OF hidden(2)]
  note drawing = setVisible_width [OF hidden(1), of demo_hidden, THEN conjunct2, THEN conjunct2]
  from hiding have "returns (setVisible False demo_world)"
    by simp
  moreover
  from showing wide have stored: "width (size' (this (world_of (setVisible True demo_hidden)))) = 36"
    by simp
  moreover
  from stored tall
  have "size' (this (world_of (setVisible True demo_hidden))) = \<lparr>width = 36, height = 32\<rparr>"
    by (cases "size' (this (world_of (setVisible True demo_hidden)))") simp
  with showing wide
  have "getSize (world_of (setVisible True demo_hidden)) =
          Return \<lparr>width = 36, height = 32\<rparr> (world_of (setVisible True demo_hidden))"
    by simp
  moreover
  from drawing hidden(2) have "width (size' (this (world_of (render' demo_hidden)))) = 0"
    by simp
  ultimately show ?thesis using visible hidden wide hide by simp
qed

text \<open>
  Claim C8 as stated fails in two places. When \<open>setVisible True\<close> returns on the hidden
  field of the example, the width stored is 36 already and not the 0 that would make
  \<open>getSize\<close> compute it: \<open>getSize\<close> returns the width and changes nothing. And the width
  that comes back need not be other than 0: for the hidden label of the example, whose
  text the browser measures as 0, \<open>getSize\<close> after \<open>setVisible True\<close> returns 0.
\<close>

theorem setVisible_width_counterexample:
  "initialized demo_hidden \<and> \<not> visible' (this demo_hidden) \<and>
   width (size' (this demo_hidden)) = 0 \<and>
   width (size' (this (world_of (setVisible True demo_hidden)))) = 36 \<and>
   getSize (world_of (setVisible True demo_hidden)) =
     Return \<lparr>width = 36, height = 32\<rparr> (world_of (setVisible True demo_hidden)) \<and>
   initialized demo_label \<and> \<not> visible' (this demo_label) \<and>
   returns (setVisible True demo_label) \<and>
   getSize (world_of (setVisible True demo_label)) =
     Return \<lparr>width = 0, height = 32\<rparr> (world_of (setVisible True demo_label))"
  by (simp add: demo_defs initialized_def setVisible_def getSvgRoot_def render'_def
      measured_width_def getSize_def Let_def js_defs)

end
